theory Spec2Isabelle
  imports Main "HOL-Library.Word"
begin

section \<open>The GTK backend of the native window (browser/native\_window\_gtk.cc)\<close>

text \<open>
  The class \<open>NativeWindowGtk\<close> adapts the abstract class \<open>NativeWindow\<close> to a GTK
  top-level window. Its methods compute almost nothing: they read and write a few fields
  and call the toolkit. The embedding therefore keeps, beside the fields of the object,
  the list of the external calls the methods have made so far (\<open>calls\<close>, oldest first),
  each call with the arguments it was given. What the toolkit answers to a query is not
  decided by this file: every method that asks the toolkit something takes the answers as
  an argument (\<open>gtk_env\<close>).
\<close>

subsection \<open>Values\<close>

text \<open>C \<open>int\<close> and \<open>gint\<close> are 32-bit integers and \<open>int64\<close> is 64-bit, read as signed by \<open>sint\<close>.\<close>

type_synonym cint = "32 word"
type_synonym int64 = "64 word"

text \<open>\<open>gboolean\<close> with its two values.\<close>

type_synonym gboolean = bool

definition TRUE :: gboolean where
  "TRUE = True"

definition FALSE :: gboolean where
  "FALSE = False"

text \<open>\<open>gfx::Rect\<close>, \<open>gfx::Size\<close>, \<open>gfx::Point\<close> and \<open>GdkRectangle\<close>, by their accessors.\<close>

record Rect =
  Rect_x :: cint
  Rect_y :: cint
  Rect_width :: cint
  Rect_height :: cint

record Size =
  Size_width :: cint
  Size_height :: cint

record Point =
  Point_x :: cint
  Point_y :: cint

record GdkRectangle =
  GdkRectangle_x :: cint
  GdkRectangle_y :: cint
  GdkRectangle_width :: cint
  GdkRectangle_height :: cint

text \<open>
  Floating-point arithmetic is not modelled: a \<open>double\<close> is kept as the expression
  that computes it, a literal, a converted 64-bit integer or a quotient of two doubles.
\<close>

datatype double =
  DoubleLiteral int
  | DoubleOfInt64 int64
  | DoubleDiv double double

text \<open>
  \<open>std::string::c_str()\<close> points at the characters of the string followed by a NUL,
  and a function that takes a \<open>const char*\<close> reads up to the first NUL: what it sees
  of a string is the part before the string's first NUL character.
\<close>

definition c_str :: "string \<Rightarrow> string" where
  "c_str str = takeWhile (\<lambda>c. c \<noteq> CHR 0x00) str"

text \<open>
  Pointers to toolkit objects: an object is named by a number, and \<open>None\<close> is the
  \<open>NULL\<close> pointer.
\<close>

datatype GtkWidget = GtkWidget nat
datatype GdkWindow = GdkWindow nat
datatype GdkPixbuf = GdkPixbuf nat

text \<open>
  \<open>gfx::Image\<close> is declared outside this file; the constructor uses two of its
  methods, \<open>IsEmpty()\<close> and \<open>ToGdkPixbuf()\<close>, and an image is modelled by what the
  two return.
\<close>

record Image =
  IsEmpty :: bool
  ToGdkPixbuf :: GdkPixbuf

text \<open>
  \<open>base::DictionaryValue\<close> is declared outside this file. The constructor only calls
  \<open>GetInteger(key, &out)\<close>, which writes \<open>out\<close> and returns true when the dictionary
  holds an integer under \<open>key\<close>, and leaves \<open>out\<close> alone and returns false otherwise.
  The dictionary is modelled by the integers it holds.
\<close>

type_synonym DictionaryValue = "string \<rightharpoonup> cint"

definition GetInteger :: "DictionaryValue \<Rightarrow> string \<Rightarrow> cint \<Rightarrow> bool \<times> cint" where
  "GetInteger options key out =
     (case options key of
        Some v \<Rightarrow> (True, v)
      | None \<Rightarrow> (False, out))"

text \<open>The keys \<open>switches::kWidth\<close> and \<open>switches::kHeight\<close> of common/options\_switches.h.\<close>

definition kWidth :: string where
  "kWidth = ''width''"

definition kHeight :: string where
  "kHeight = ''height''"

subsection \<open>Toolkit types\<close>

datatype GtkWindowType = GTK_WINDOW_TOPLEVEL | GTK_WINDOW_POPUP

datatype GtkWindowPosition =
  GTK_WIN_POS_NONE | GTK_WIN_POS_CENTER | GTK_WIN_POS_MOUSE
  | GTK_WIN_POS_CENTER_ALWAYS | GTK_WIN_POS_CENTER_ON_PARENT

datatype GtkStateType =
  GTK_STATE_NORMAL | GTK_STATE_ACTIVE | GTK_STATE_PRELIGHT
  | GTK_STATE_SELECTED | GTK_STATE_INSENSITIVE

text \<open>
  The flags of \<open>GdkWindowHints\<close>; a value of the type is the set of the flags that are
  or-ed together.
\<close>

datatype GdkWindowHint =
  GDK_HINT_POS | GDK_HINT_MIN_SIZE | GDK_HINT_MAX_SIZE | GDK_HINT_BASE_SIZE
  | GDK_HINT_ASPECT | GDK_HINT_RESIZE_INC | GDK_HINT_WIN_GRAVITY
  | GDK_HINT_USER_POS | GDK_HINT_USER_SIZE

record GdkGeometry =
  min_width :: cint
  min_height :: cint
  max_width :: cint
  max_height :: cint
  base_width :: cint
  base_height :: cint
  width_inc :: cint
  height_inc :: cint
  min_aspect :: double
  max_aspect :: double
  win_gravity :: cint

text \<open>The initialiser \<open>GdkGeometry geometry = { 0 }\<close>: every member is zero.\<close>

definition zero_geometry :: GdkGeometry where
  "zero_geometry =
     \<lparr>min_width = 0, min_height = 0, max_width = 0, max_height = 0,
      base_width = 0, base_height = 0, width_inc = 0, height_inc = 0,
      min_aspect = DoubleLiteral 0, max_aspect = DoubleLiteral 0,
      win_gravity = 0\<rparr>"

datatype GdkColor = GdkColor (red: "16 word") (green: "16 word") (blue: "16 word")

record GtkStyle =
  bg :: "GtkStateType \<Rightarrow> GdkColor"
  base :: "GtkStateType \<Rightarrow> GdkColor"
  text_color :: "GtkStateType \<Rightarrow> GdkColor"

text \<open>
  An \<open>SkColor\<close> is kept as the expression that built it: \<open>SkColorSetRGB\<close> and
  \<open>gfx::GdkColorToSkColor\<close> are defined outside this file.
\<close>

datatype SkColor =
  SkColorSetRGB nat nat nat
  | GdkColorToSkColor GdkColor
  | SkColorUnset

record RendererPreferences =
  focus_ring_color :: SkColor
  thumb_active_color :: SkColor
  thumb_inactive_color :: SkColor
  track_color :: SkColor
  active_selection_bg_color :: SkColor
  active_selection_fg_color :: SkColor
  inactive_selection_bg_color :: SkColor
  inactive_selection_fg_color :: SkColor
  caret_blink_interval :: double

text \<open>The signal handlers that the constructor hands to \<open>g_signal_connect\<close>.\<close>

datatype callback = OnWindowDeleteEventThunk | OnFocusOutThunk

subsection \<open>External calls\<close>

text \<open>
  One constructor for each function of the toolkit (and of the base class and of
  \<open>gfx\<close>) that the file calls, with the arguments of the call. The first argument
  of most of them is the window pointer \<open>window_\<close>, passed as it is at that moment.
\<close>

datatype call =
  Gtk_window_new GtkWindowType
  | Gtk_container_add "GtkWidget option" "GtkWidget option"
  | Gtk_window_set_default_size "GtkWidget option" cint cint
  | Gtk_window_set_decorated "GtkWidget option" gboolean
  | Gtk_window_set_icon "GtkWidget option" GdkPixbuf
  | G_signal_connect "GtkWidget option" string callback
  | Gtk_widget_destroy "GtkWidget option"
  | Gtk_window_move "GtkWidget option" cint cint
  | Gtk_window_resize "GtkWidget option" cint cint
  | Gtk_window_present "GtkWidget option"
  | Gtk_widget_get_window "GtkWidget option"
  | Gdk_window_lower "GdkWindow option"
  | Gtk_window_is_active "GtkWidget option"
  | Gtk_widget_show_all "GtkWidget option"
  | Gtk_widget_hide "GtkWidget option"
  | Gtk_widget_get_visible "GtkWidget option"
  | Gtk_window_maximize "GtkWidget option"
  | Gtk_window_unmaximize "GtkWidget option"
  | Gtk_window_iconify "GtkWidget option"
  | Gtk_window_fullscreen "GtkWidget option"
  | Gtk_window_unfullscreen "GtkWidget option"
  | Gdk_window_get_frame_extents "GdkWindow option"
  | Gtk_window_set_geometry_hints "GtkWidget option" "GtkWidget option"
      GdkGeometry "GdkWindowHint set"
  | Gtk_window_get_size "GtkWidget option"
  | Gtk_widget_set_size_request "GtkWidget option" cint cint
  | Gtk_window_set_resizable "GtkWidget option" gboolean
  | Gtk_window_get_resizable "GtkWidget option"
  | Gtk_window_set_keep_above "GtkWidget option" gboolean
  | Gtk_window_set_position "GtkWidget option" GtkWindowPosition
  | Gtk_window_set_title "GtkWidget option" string
  | Gtk_window_get_title "GtkWidget option"
  | Gtk_window_set_urgency_hint "GtkWidget option" gboolean
  | Gtk_rc_get_style "GtkWidget option"
  | Gtk_entry_new
  | GetCursorBlinkCycle
  | CloseWebContents
  | NotifyWindowBlur

text \<open>What the toolkit answers when it is asked.\<close>

record gtk_env =
  window_new :: GtkWidget
  entry_new :: GtkWidget
  widget_window :: "GdkWindow option"
  frame_extents :: GdkRectangle
  is_active :: gboolean
  visible :: gboolean
  resizable :: gboolean
  window_size :: "cint \<times> cint"
  window_title :: "string option"
  rc_style :: "GtkWidget option \<Rightarrow> GtkStyle"
  cursor_blink_cycle :: int64

subsection \<open>The object\<close>

text \<open>
  The state that the parent class \<open>NativeWindow\<close> supplies: the native view and the
  renderer preferences of the web contents, the frame flag, the icon and the size bounds.
  The parent's constructor is outside this file; the constructor below takes the
  parent's part of the object as that constructor left it.
\<close>

text \<open>
  A data member \<open>name_\<close> of the source is the field \<open>name_m\<close> here (an Isabelle
  name cannot end in an underscore).
\<close>

record NativeWindow =
  web_contents_native_view :: "GtkWidget option"
  renderer_prefs :: RendererPreferences
  has_frame_m :: bool
  icon_m :: Image
  minimum_size_m :: Size
  maximum_size_m :: Size

record NativeWindowGtk = NativeWindow +
  window_m :: "GtkWidget option"
  fullscreen_m :: bool
  is_always_on_top_m :: bool
  calls :: "call list"

definition call :: "call \<Rightarrow> NativeWindowGtk \<Rightarrow> NativeWindowGtk" where
  "call c s = s\<lparr>calls := calls s @ [c]\<rparr>"

subsection \<open>Construction and destruction\<close>

definition kGtkCursorBlinkCycleFactor :: double where
  "kGtkCursorBlinkCycleFactor = DoubleLiteral 2000"

text \<open>
  \<open>SetWebKitColorStyle\<close> copies colours of the toolkit's style into the renderer
  preferences. \<open>caret_blink_interval\<close> becomes the \<open>double\<close> quotient of the blink
  cycle in milliseconds by \<open>kGtkCursorBlinkCycleFactor\<close>, or zero when the cycle is
  zero.
\<close>

definition SetWebKitColorStyle :: "gtk_env \<Rightarrow> NativeWindowGtk \<Rightarrow> NativeWindowGtk" where
  "SetWebKitColorStyle env s0 =
     (let s1 = call (Gtk_rc_get_style (window_m s0)) s0;
          frame_style = rc_style env (window_m s0);
          s2 = s1\<lparr>renderer_prefs := (renderer_prefs s1)
                 \<lparr>focus_ring_color := GdkColorToSkColor (bg frame_style GTK_STATE_SELECTED),
                  thumb_active_color := SkColorSetRGB 244 244 244,
                  thumb_inactive_color := SkColorSetRGB 234 234 234,
                  track_color := SkColorSetRGB 211 211 211\<rparr>\<rparr>;
          s3 = call Gtk_entry_new s2;
          url_entry = Some (entry_new env);
          s4 = call (Gtk_rc_get_style url_entry) s3;
          entry_style = rc_style env url_entry;
          s5 = s4\<lparr>renderer_prefs := (renderer_prefs s4)
                 \<lparr>active_selection_bg_color :=
                    GdkColorToSkColor (base entry_style GTK_STATE_SELECTED),
                  active_selection_fg_color :=
                    GdkColorToSkColor (text_color entry_style GTK_STATE_SELECTED),
                  inactive_selection_bg_color :=
                    GdkColorToSkColor (base entry_style GTK_STATE_ACTIVE),
                  inactive_selection_fg_color :=
                    GdkColorToSkColor (text_color entry_style GTK_STATE_ACTIVE)\<rparr>\<rparr>;
          s6 = call (Gtk_widget_destroy url_entry) s5;
          s7 = call GetCursorBlinkCycle s6;
          cursor_blink_time = cursor_blink_cycle env
      in s7\<lparr>renderer_prefs := (renderer_prefs s7)
              \<lparr>caret_blink_interval :=
                 (if cursor_blink_time \<noteq> 0
                  then DoubleDiv (DoubleOfInt64 cursor_blink_time)
                         kGtkCursorBlinkCycleFactor
                  else DoubleLiteral 0)\<rparr>\<rparr>)"

text \<open>
  The constructor. \<open>parent\<close> is the part of the object that the constructor of
  \<open>NativeWindow\<close> has initialised; the member initialisers create the toolkit window
  and clear the two flags, and the body follows.
\<close>

definition NativeWindowGtk_ctor ::
    "gtk_env \<Rightarrow> NativeWindow \<Rightarrow> DictionaryValue \<Rightarrow> NativeWindowGtk" where
  "NativeWindowGtk_ctor env parent options =
     (let s0 = \<lparr>web_contents_native_view = web_contents_native_view parent,
                renderer_prefs = renderer_prefs parent,
                has_frame_m = has_frame_m parent,
                icon_m = icon_m parent,
                minimum_size_m = minimum_size_m parent,
                maximum_size_m = maximum_size_m parent,
                window_m = Some (window_new env),
                fullscreen_m = False,
                is_always_on_top_m = False,
                calls = [Gtk_window_new GTK_WINDOW_TOPLEVEL]\<rparr>;
          s1 = call (Gtk_container_add (window_m s0) (web_contents_native_view s0)) s0;
          width = snd (GetInteger options kWidth 800);
          height = snd (GetInteger options kHeight 600);
          s2 = call (Gtk_window_set_default_size (window_m s1) width height) s1;
          s3 = (if \<not> has_frame_m s2
                then call (Gtk_window_set_decorated (window_m s2) False) s2
                else s2);
          s4 = (if \<not> IsEmpty (icon_m s3)
                then call (Gtk_window_set_icon (window_m s3) (ToGdkPixbuf (icon_m s3))) s3
                else s3);
          s5 = call (G_signal_connect (window_m s4) ''delete-event''
                       OnWindowDeleteEventThunk) s4;
          s6 = call (G_signal_connect (window_m s5) ''focus-out-event''
                       OnFocusOutThunk) s5
      in SetWebKitColorStyle env s6)"

definition NativeWindowGtk_dtor :: "NativeWindowGtk \<Rightarrow> NativeWindowGtk" where
  "NativeWindowGtk_dtor s =
     (if window_m s \<noteq> None then call (Gtk_widget_destroy (window_m s)) s else s)"

subsection \<open>The methods\<close>

definition CloseWebContents_base :: "NativeWindowGtk \<Rightarrow> NativeWindowGtk" where
  \<comment> \<open>a method of the parent class, defined outside this file: recorded as a call\<close>
  "CloseWebContents_base s = call CloseWebContents s"

definition NotifyWindowBlur_base :: "NativeWindowGtk \<Rightarrow> NativeWindowGtk" where
  \<comment> \<open>a method of the parent class, defined outside this file: recorded as a call\<close>
  "NotifyWindowBlur_base s = call NotifyWindowBlur s"

definition Close :: "NativeWindowGtk \<Rightarrow> NativeWindowGtk" where
  "Close s = CloseWebContents_base s"

definition CloseImmediately :: "NativeWindowGtk \<Rightarrow> NativeWindowGtk" where
  "CloseImmediately s0 =
     (let s1 = call (Gtk_widget_destroy (window_m s0)) s0
      in s1\<lparr>window_m := None\<rparr>)"

definition Move :: "Rect \<Rightarrow> NativeWindowGtk \<Rightarrow> NativeWindowGtk" where
  "Move pos s0 =
     (let s1 = call (Gtk_window_move (window_m s0) (Rect_x pos) (Rect_y pos)) s0
      in call (Gtk_window_resize (window_m s1) (Rect_width pos) (Rect_height pos)) s1)"

definition Focus :: "gtk_env \<Rightarrow> bool \<Rightarrow> NativeWindowGtk \<Rightarrow> NativeWindowGtk" where
  "Focus env focus s0 =
     (if focus then call (Gtk_window_present (window_m s0)) s0
      else (let s1 = call (Gtk_widget_get_window (window_m s0)) s0
            in call (Gdk_window_lower (widget_window env)) s1))"

definition IsFocused :: "gtk_env \<Rightarrow> NativeWindowGtk \<Rightarrow> bool \<times> NativeWindowGtk" where
  "IsFocused env s = (is_active env, call (Gtk_window_is_active (window_m s)) s)"

definition Show :: "NativeWindowGtk \<Rightarrow> NativeWindowGtk" where
  "Show s = call (Gtk_widget_show_all (window_m s)) s"

definition Hide :: "NativeWindowGtk \<Rightarrow> NativeWindowGtk" where
  "Hide s = call (Gtk_widget_hide (window_m s)) s"

definition IsVisible :: "gtk_env \<Rightarrow> NativeWindowGtk \<Rightarrow> bool \<times> NativeWindowGtk" where
  "IsVisible env s = (visible env, call (Gtk_widget_get_visible (window_m s)) s)"

definition Maximize :: "NativeWindowGtk \<Rightarrow> NativeWindowGtk" where
  "Maximize s = call (Gtk_window_maximize (window_m s)) s"

definition Unmaximize :: "NativeWindowGtk \<Rightarrow> NativeWindowGtk" where
  "Unmaximize s = call (Gtk_window_unmaximize (window_m s)) s"

definition Minimize :: "NativeWindowGtk \<Rightarrow> NativeWindowGtk" where
  "Minimize s = call (Gtk_window_iconify (window_m s)) s"

definition Restore :: "NativeWindowGtk \<Rightarrow> NativeWindowGtk" where
  "Restore s = call (Gtk_window_present (window_m s)) s"

definition SetFullscreen :: "bool \<Rightarrow> NativeWindowGtk \<Rightarrow> NativeWindowGtk" where
  "SetFullscreen fullscreen s0 =
     (let s1 = s0\<lparr>fullscreen_m := fullscreen\<rparr>
      in if fullscreen then call (Gtk_window_fullscreen (window_m s1)) s1
         else call (Gtk_window_unfullscreen (window_m s1)) s1)"

definition IsFullscreen :: "NativeWindowGtk \<Rightarrow> bool" where
  "IsFullscreen s = fullscreen_m s"

definition SetSize :: "Size \<Rightarrow> NativeWindowGtk \<Rightarrow> NativeWindowGtk" where
  "SetSize size' s =
     call (Gtk_window_resize (window_m s) (Size_width size') (Size_height size')) s"

definition GetSize :: "gtk_env \<Rightarrow> NativeWindowGtk \<Rightarrow> Size \<times> NativeWindowGtk" where
  "GetSize env s0 =
     (let s1 = call (Gtk_widget_get_window (window_m s0)) s0;
          gdk_window = widget_window env;
          s2 = call (Gdk_window_get_frame_extents gdk_window) s1;
          extents = frame_extents env
      in (\<lparr>Size_width = GdkRectangle_width extents,
           Size_height = GdkRectangle_height extents\<rparr>, s2))"

definition SetMinimumSize :: "Size \<Rightarrow> NativeWindowGtk \<Rightarrow> NativeWindowGtk" where
  "SetMinimumSize size' s0 =
     (let s1 = s0\<lparr>minimum_size_m := size'\<rparr>;
          geometry = zero_geometry\<lparr>min_width := Size_width size',
                                   min_height := Size_height size'\<rparr>;
          hints = {GDK_HINT_POS} \<union> {GDK_HINT_MIN_SIZE}
      in call (Gtk_window_set_geometry_hints (window_m s1) (window_m s1) geometry hints) s1)"

definition GetMinimumSize :: "NativeWindowGtk \<Rightarrow> Size" where
  "GetMinimumSize s = minimum_size_m s"

definition SetMaximumSize :: "Size \<Rightarrow> NativeWindowGtk \<Rightarrow> NativeWindowGtk" where
  "SetMaximumSize size' s0 =
     (let s1 = s0\<lparr>maximum_size_m := size'\<rparr>;
          geometry = zero_geometry\<lparr>max_width := Size_width size',
                                   max_height := Size_height size'\<rparr>;
          hints = {GDK_HINT_POS} \<union> {GDK_HINT_MAX_SIZE}
      in call (Gtk_window_set_geometry_hints (window_m s1) (window_m s1) geometry hints) s1)"

definition GetMaximumSize :: "NativeWindowGtk \<Rightarrow> Size" where
  "GetMaximumSize s = maximum_size_m s"

definition IsResizable :: "gtk_env \<Rightarrow> NativeWindowGtk \<Rightarrow> bool \<times> NativeWindowGtk" where
  "IsResizable env s = (resizable env, call (Gtk_window_get_resizable (window_m s)) s)"

definition SetResizable :: "gtk_env \<Rightarrow> bool \<Rightarrow> NativeWindowGtk \<Rightarrow> NativeWindowGtk" where
  "SetResizable env resizable' s0 =
     (let (is_resizable, s1) = IsResizable env s0;
          s3 = (if \<not> is_resizable
                then (let s2 = call (Gtk_window_get_size (window_m s1)) s1;
                          (width, height) = window_size env
                      in call (Gtk_widget_set_size_request (window_m s2) width height) s2)
                else s1)
      in call (Gtk_window_set_resizable (window_m s3) resizable') s3)"

definition SetAlwaysOnTop :: "bool \<Rightarrow> NativeWindowGtk \<Rightarrow> NativeWindowGtk" where
  "SetAlwaysOnTop top' s0 =
     (let s1 = s0\<lparr>is_always_on_top_m := top'\<rparr>
      in call (Gtk_window_set_keep_above (window_m s1) (if top' then TRUE else FALSE)) s1)"

definition IsAlwaysOnTop :: "NativeWindowGtk \<Rightarrow> bool" where
  "IsAlwaysOnTop s = is_always_on_top_m s"

definition Center :: "NativeWindowGtk \<Rightarrow> NativeWindowGtk" where
  "Center s = call (Gtk_window_set_position (window_m s) GTK_WIN_POS_CENTER) s"

definition SetPosition :: "Point \<Rightarrow> NativeWindowGtk \<Rightarrow> NativeWindowGtk" where
  "SetPosition position s =
     call (Gtk_window_move (window_m s) (Point_x position) (Point_y position)) s"

definition GetPosition :: "gtk_env \<Rightarrow> NativeWindowGtk \<Rightarrow> Point \<times> NativeWindowGtk" where
  "GetPosition env s0 =
     (let s1 = call (Gtk_widget_get_window (window_m s0)) s0;
          gdk_window = widget_window env;
          s2 = call (Gdk_window_get_frame_extents gdk_window) s1;
          extents = frame_extents env
      in (\<lparr>Point_x = GdkRectangle_x extents, Point_y = GdkRectangle_y extents\<rparr>, s2))"

definition SetTitle :: "string \<Rightarrow> NativeWindowGtk \<Rightarrow> NativeWindowGtk" where
  "SetTitle title s = call (Gtk_window_set_title (window_m s) (c_str title)) s"

text \<open>
  \<open>gtk_window_get_title\<close> may answer \<open>NULL\<close>, from which no \<open>std::string\<close> can be
  built: the result is then \<open>None\<close>.
\<close>

definition GetTitle :: "gtk_env \<Rightarrow> NativeWindowGtk \<Rightarrow> string option \<times> NativeWindowGtk" where
  "GetTitle env s = (window_title env, call (Gtk_window_get_title (window_m s)) s)"

definition FlashFrame :: "bool \<Rightarrow> NativeWindowGtk \<Rightarrow> NativeWindowGtk" where
  "FlashFrame flash s = call (Gtk_window_set_urgency_hint (window_m s) flash) s"

definition SetKiosk :: "bool \<Rightarrow> NativeWindowGtk \<Rightarrow> NativeWindowGtk" where
  "SetKiosk kiosk s = SetFullscreen kiosk s"

definition IsKiosk :: "NativeWindowGtk \<Rightarrow> bool" where
  "IsKiosk s = IsFullscreen s"

definition HasModalDialog :: "NativeWindowGtk \<Rightarrow> bool" where
  "HasModalDialog s = False"

definition GetNativeWindow :: "NativeWindowGtk \<Rightarrow> GtkWidget option" where
  "GetNativeWindow s = window_m s"

datatype DraggableRegion = DraggableRegion (draggable: bool) (bounds: Rect)

definition UpdateDraggableRegions ::
    "DraggableRegion list \<Rightarrow> NativeWindowGtk \<Rightarrow> NativeWindowGtk" where
  "UpdateDraggableRegions regions s = s"

datatype GdkEvent = GdkEvent nat

definition OnWindowDeleteEvent ::
    "GtkWidget option \<Rightarrow> GdkEvent option \<Rightarrow> NativeWindowGtk \<Rightarrow> gboolean \<times> NativeWindowGtk" where
  "OnWindowDeleteEvent widget event s0 =
     (let s1 = Close s0
      in (TRUE, s1))"

definition OnFocusOut ::
    "GtkWidget option \<Rightarrow> GdkEvent option \<Rightarrow> NativeWindowGtk \<Rightarrow> gboolean \<times> NativeWindowGtk" where
  "OnFocusOut window event s0 =
     (let s1 = NotifyWindowBlur_base s0
      in (FALSE, s1))"

subsection \<open>The interface as a whole\<close>

text \<open>
  The public methods and the two signal handlers as one type of operations, so that
  "every operation" and "any sequence of operations" can be spoken of. \<open>step\<close>
  performs one operation, \<open>run\<close> a sequence of them; each operation comes with the
  answers the toolkit gives while it runs.
\<close>

datatype op =
  CloseOp
  | CloseImmediatelyOp
  | MoveOp Rect
  | FocusOp bool
  | IsFocusedOp
  | ShowOp
  | HideOp
  | IsVisibleOp
  | MaximizeOp
  | UnmaximizeOp
  | MinimizeOp
  | RestoreOp
  | SetFullscreenOp bool
  | IsFullscreenOp
  | SetSizeOp Size
  | GetSizeOp
  | SetMinimumSizeOp Size
  | GetMinimumSizeOp
  | SetMaximumSizeOp Size
  | GetMaximumSizeOp
  | SetResizableOp bool
  | IsResizableOp
  | SetAlwaysOnTopOp bool
  | IsAlwaysOnTopOp
  | CenterOp
  | SetPositionOp Point
  | GetPositionOp
  | SetTitleOp string
  | GetTitleOp
  | FlashFrameOp bool
  | SetKioskOp bool
  | IsKioskOp
  | HasModalDialogOp
  | GetNativeWindowOp
  | UpdateDraggableRegionsOp "DraggableRegion list"
  | OnWindowDeleteEventOp "GtkWidget option" "GdkEvent option"
  | OnFocusOutOp "GtkWidget option" "GdkEvent option"

datatype result =
  Void
  | Bool bool
  | Gboolean gboolean
  | SizeResult Size
  | PointResult Point
  | StringResult "string option"
  | WindowResult "GtkWidget option"

primrec step :: "op \<Rightarrow> gtk_env \<Rightarrow> NativeWindowGtk \<Rightarrow> result \<times> NativeWindowGtk" where
  "step CloseOp env s = (Void, Close s)"
| "step CloseImmediatelyOp env s = (Void, CloseImmediately s)"
| "step (MoveOp pos) env s = (Void, Move pos s)"
| "step (FocusOp focus) env s = (Void, Focus env focus s)"
| "step IsFocusedOp env s = (case IsFocused env s of (b, s') \<Rightarrow> (Bool b, s'))"
| "step ShowOp env s = (Void, Show s)"
| "step HideOp env s = (Void, Hide s)"
| "step IsVisibleOp env s = (case IsVisible env s of (b, s') \<Rightarrow> (Bool b, s'))"
| "step MaximizeOp env s = (Void, Maximize s)"
| "step UnmaximizeOp env s = (Void, Unmaximize s)"
| "step MinimizeOp env s = (Void, Minimize s)"
| "step RestoreOp env s = (Void, Restore s)"
| "step (SetFullscreenOp fullscreen) env s = (Void, SetFullscreen fullscreen s)"
| "step IsFullscreenOp env s = (Bool (IsFullscreen s), s)"
| "step (SetSizeOp size') env s = (Void, SetSize size' s)"
| "step GetSizeOp env s = (case GetSize env s of (r, s') \<Rightarrow> (SizeResult r, s'))"
| "step (SetMinimumSizeOp size') env s = (Void, SetMinimumSize size' s)"
| "step GetMinimumSizeOp env s = (SizeResult (GetMinimumSize s), s)"
| "step (SetMaximumSizeOp size') env s = (Void, SetMaximumSize size' s)"
| "step GetMaximumSizeOp env s = (SizeResult (GetMaximumSize s), s)"
| "step (SetResizableOp resizable') env s = (Void, SetResizable env resizable' s)"
| "step IsResizableOp env s = (case IsResizable env s of (b, s') \<Rightarrow> (Bool b, s'))"
| "step (SetAlwaysOnTopOp top') env s = (Void, SetAlwaysOnTop top' s)"
| "step IsAlwaysOnTopOp env s = (Bool (IsAlwaysOnTop s), s)"
| "step CenterOp env s = (Void, Center s)"
| "step (SetPositionOp position) env s = (Void, SetPosition position s)"
| "step GetPositionOp env s = (case GetPosition env s of (r, s') \<Rightarrow> (PointResult r, s'))"
| "step (SetTitleOp title) env s = (Void, SetTitle title s)"
| "step GetTitleOp env s = (case GetTitle env s of (r, s') \<Rightarrow> (StringResult r, s'))"
| "step (FlashFrameOp flash) env s = (Void, FlashFrame flash s)"
| "step (SetKioskOp kiosk) env s = (Void, SetKiosk kiosk s)"
| "step IsKioskOp env s = (Bool (IsKiosk s), s)"
| "step HasModalDialogOp env s = (Bool (HasModalDialog s), s)"
| "step GetNativeWindowOp env s = (WindowResult (GetNativeWindow s), s)"
| "step (UpdateDraggableRegionsOp regions) env s = (Void, UpdateDraggableRegions regions s)"
| "step (OnWindowDeleteEventOp widget event) env s =
     (case OnWindowDeleteEvent widget event s of (r, s') \<Rightarrow> (Gboolean r, s'))"
| "step (OnFocusOutOp window event) env s =
     (case OnFocusOut window event s of (r, s') \<Rightarrow> (Gboolean r, s'))"

fun run :: "(op \<times> gtk_env) list \<Rightarrow> NativeWindowGtk \<Rightarrow> NativeWindowGtk" where
  "run [] s = s"
| "run ((op, env) # rest) s = run rest (snd (step op env s))"

text \<open>The handlers registered by the calls of a list, in the order of registration.\<close>

definition signal_connects :: "call list \<Rightarrow> (GtkWidget option \<times> string \<times> callback) list" where
  "signal_connects cs =
     List.map_filter
       (\<lambda>c. case c of G_signal_connect w name cb \<Rightarrow> Some (w, name, cb) | _ \<Rightarrow> None) cs"

subsection \<open>A concrete window\<close>

definition example_style :: GtkStyle where
  "example_style =
     \<lparr>bg = (\<lambda>_. GdkColor 1 2 3), base = (\<lambda>_. GdkColor 4 5 6),
      text_color = (\<lambda>_. GdkColor 7 8 9)\<rparr>"

definition example_env :: gtk_env where
  "example_env =
     \<lparr>window_new = GtkWidget 1, entry_new = GtkWidget 2,
      widget_window = Some (GdkWindow 3),
      frame_extents = \<lparr>GdkRectangle_x = 10, GdkRectangle_y = 20,
                        GdkRectangle_width = 1024, GdkRectangle_height = 768\<rparr>,
      is_active = True, visible = True, resizable = True,
      window_size = (1024, 768), window_title = Some ''Atom'',
      rc_style = (\<lambda>_. example_style), cursor_blink_cycle = 1200\<rparr>"

definition example_prefs :: RendererPreferences where
  "example_prefs =
     \<lparr>focus_ring_color = SkColorUnset, thumb_active_color = SkColorUnset,
      thumb_inactive_color = SkColorUnset, track_color = SkColorUnset,
      active_selection_bg_color = SkColorUnset, active_selection_fg_color = SkColorUnset,
      inactive_selection_bg_color = SkColorUnset,
      inactive_selection_fg_color = SkColorUnset,
      caret_blink_interval = DoubleLiteral 0\<rparr>"

definition example_parent :: NativeWindow where
  "example_parent =
     \<lparr>web_contents_native_view = Some (GtkWidget 0), renderer_prefs = example_prefs,
      has_frame_m = False,
      icon_m = \<lparr>IsEmpty = False, ToGdkPixbuf = GdkPixbuf 7\<rparr>,
      minimum_size_m = \<lparr>Size_width = 0, Size_height = 0\<rparr>,
      maximum_size_m = \<lparr>Size_width = 0, Size_height = 0\<rparr>\<rparr>"

definition example_options :: DictionaryValue where
  "example_options = [kWidth \<mapsto> 1024]"

definition example_rect :: Rect where
  "example_rect = \<lparr>Rect_x = 1, Rect_y = 2, Rect_width = 3, Rect_height = 4\<rparr>"

definition example_env_not_resizable :: gtk_env where
  "example_env_not_resizable = example_env\<lparr>resizable := False\<rparr>"

definition example_window :: NativeWindowGtk where
  "example_window = NativeWindowGtk_ctor example_env example_parent example_options"

section \<open>Properties\<close>

subsection \<open>Auxiliary facts\<close>

lemmas method_defs =
  Close_def CloseWebContents_base_def NotifyWindowBlur_base_def CloseImmediately_def
  Move_def Focus_def IsFocused_def Show_def Hide_def IsVisible_def Maximize_def
  Unmaximize_def Minimize_def Restore_def SetFullscreen_def IsFullscreen_def SetSize_def
  GetSize_def SetMinimumSize_def GetMinimumSize_def SetMaximumSize_def GetMaximumSize_def
  IsResizable_def SetResizable_def SetAlwaysOnTop_def IsAlwaysOnTop_def Center_def
  SetPosition_def GetPosition_def SetTitle_def GetTitle_def FlashFrame_def SetKiosk_def
  IsKiosk_def HasModalDialog_def GetNativeWindow_def UpdateDraggableRegions_def
  OnWindowDeleteEvent_def OnFocusOut_def

text \<open>The calls of the constructor, in full.\<close>

lemma calls_ctor:
  "calls (NativeWindowGtk_ctor env parent options) =
     [Gtk_window_new GTK_WINDOW_TOPLEVEL,
      Gtk_container_add (Some (window_new env)) (web_contents_native_view parent),
      Gtk_window_set_default_size (Some (window_new env))
        (case options kWidth of Some w \<Rightarrow> w | None \<Rightarrow> 800)
        (case options kHeight of Some h \<Rightarrow> h | None \<Rightarrow> 600)]
     @ (if has_frame_m parent then []
        else [Gtk_window_set_decorated (Some (window_new env)) False])
     @ (if IsEmpty (icon_m parent) then []
        else [Gtk_window_set_icon (Some (window_new env)) (ToGdkPixbuf (icon_m parent))])
     @ [G_signal_connect (Some (window_new env)) ''delete-event'' OnWindowDeleteEventThunk,
        G_signal_connect (Some (window_new env)) ''focus-out-event'' OnFocusOutThunk,
        Gtk_rc_get_style (Some (window_new env)),
        Gtk_entry_new,
        Gtk_rc_get_style (Some (entry_new env)),
        Gtk_widget_destroy (Some (entry_new env)),
        GetCursorBlinkCycle]"
  by (simp add: NativeWindowGtk_ctor_def SetWebKitColorStyle_def call_def Let_def
      GetInteger_def split: option.split)

lemma signal_connects_ctor:
  "signal_connects (calls (NativeWindowGtk_ctor env parent options)) =
     [(Some (window_new env), ''delete-event'', OnWindowDeleteEventThunk),
      (Some (window_new env), ''focus-out-event'', OnFocusOutThunk)]"
  by (simp add: calls_ctor signal_connects_def List.map_filter_def)

lemma step_minimum_size:
  "(\<forall>sz. op \<noteq> SetMinimumSizeOp sz) \<Longrightarrow>
     minimum_size_m (snd (step op env s)) = minimum_size_m s"
  by (cases op) (simp_all add: method_defs call_def Let_def split: prod.split)

lemma step_maximum_size:
  "(\<forall>sz. op \<noteq> SetMaximumSizeOp sz) \<Longrightarrow>
     maximum_size_m (snd (step op env s)) = maximum_size_m s"
  by (cases op) (simp_all add: method_defs call_def Let_def split: prod.split)

subsection \<open>Setters that forward their arguments\<close>

text \<open>
  C1, as amended. Each of the setters \<open>Move\<close>, \<open>SetSize\<close>, \<open>SetPosition\<close> and
  \<open>SetTitle\<close> changes nothing of the object and only hands its arguments to the
  toolkit: \<open>Move(pos)\<close> makes two calls, giving \<open>pos.x, pos.y\<close> to
  \<open>gtk_window_move\<close> and \<open>pos.width, pos.height\<close> to \<open>gtk_window_resize\<close>;
  \<open>SetSize(s)\<close> makes one call, giving \<open>s.width, s.height\<close> to
  \<open>gtk_window_resize\<close>; \<open>SetPosition(p)\<close> makes one call, giving \<open>p.x, p.y\<close> to
  \<open>gtk_window_move\<close>; \<open>SetTitle(t)\<close> makes one call, giving \<open>t.c_str()\<close> to
  \<open>gtk_window_set_title\<close>, which is \<open>t\<close> up to its first NUL character, and
  is \<open>t\<close> itself exactly when \<open>t\<close> holds no NUL character.
\<close>

theorem setters_forward_arguments:
  "Move pos s =
     s\<lparr>calls := calls s @
          [Gtk_window_move (window_m s) (Rect_x pos) (Rect_y pos),
           Gtk_window_resize (window_m s) (Rect_width pos) (Rect_height pos)]\<rparr>
   \<and> SetSize sz s =
     s\<lparr>calls := calls s @
          [Gtk_window_resize (window_m s) (Size_width sz) (Size_height sz)]\<rparr>
   \<and> SetPosition p s =
     s\<lparr>calls := calls s @ [Gtk_window_move (window_m s) (Point_x p) (Point_y p)]\<rparr>
   \<and> SetTitle t s =
     s\<lparr>calls := calls s @ [Gtk_window_set_title (window_m s) (c_str t)]\<rparr>
   \<and> c_str t = takeWhile (\<lambda>c. c \<noteq> CHR 0x00) t
   \<and> (c_str t = t \<longleftrightarrow> CHR 0x00 \<notin> set t)"
proof (intro conjI)
  show "c_str t = t \<longleftrightarrow> CHR 0x00 \<notin> set t"
    unfolding c_str_def takeWhile_eq_all_conv by blast
qed (simp_all add: Move_def SetSize_def SetPosition_def SetTitle_def call_def Let_def
      c_str_def)

text \<open>
  At a concrete input: the title \<open>Atom\<close> holds no NUL character and reaches
  \<open>gtk_window_set_title\<close> as it is.
\<close>

theorem setters_forward_arguments_witness:
  "CHR 0x00 \<notin> set ''Atom''
   \<and> SetTitle ''Atom'' example_window =
       example_window\<lparr>calls := calls example_window @
         [Gtk_window_set_title (window_m example_window) ''Atom'']\<rparr>"
proof -
  note forwarded = setters_forward_arguments
    [where t = "''Atom''" and s = example_window and pos = example_rect
       and sz = "\<lparr>Size_width = 3, Size_height = 4\<rparr>"
       and p = "\<lparr>Point_x = 1, Point_y = 2\<rparr>"]
  have no_nul: "CHR 0x00 \<notin> set ''Atom''"
    by simp
  from forwarded no_nul have whole: "c_str ''Atom'' = ''Atom''"
    by blast
  from forwarded have "SetTitle ''Atom'' example_window =
       example_window\<lparr>calls := calls example_window @
         [Gtk_window_set_title (window_m example_window) (c_str ''Atom'')]\<rparr>"
    by blast
  with whole have "SetTitle ''Atom'' example_window =
       example_window\<lparr>calls := calls example_window @
         [Gtk_window_set_title (window_m example_window) ''Atom'']\<rparr>"
    by simp
  with no_nul show ?thesis
    by (intro conjI)
qed

text \<open>
  C1, as stated, fails twice. A title with a NUL character in it does not reach the
  toolkit unchanged: of the three characters \<open>a\<close>, NUL, \<open>b\<close> the toolkit is given
  \<open>a\<close> alone. And a setter need not make exactly one toolkit call: \<open>Move\<close> makes
  two, and \<open>SetResizable\<close> makes four on a window that is not resizable.
\<close>

theorem setters_forward_arguments_counterexample:
  "calls (SetTitle [CHR ''a'', CHR 0x00, CHR ''b''] example_window) =
     calls example_window @ [Gtk_window_set_title (window_m example_window) ''a'']
   \<and> ''a'' \<noteq> [CHR ''a'', CHR 0x00, CHR ''b'']
   \<and> length (calls (Move example_rect example_window)) =
       length (calls example_window) + 2
   \<and> length (calls (SetResizable example_env_not_resizable True example_window)) =
       length (calls example_window) + 4"
  by (simp add: SetTitle_def c_str_def Move_def SetResizable_def IsResizable_def call_def
      Let_def example_env_not_resizable_def example_env_def)

subsection \<open>Signal handlers\<close>

text \<open>
  C2, as amended. The constructor registers exactly two signal handlers, both on the
  new window: \<open>OnWindowDeleteEventThunk\<close> for \<open>delete-event\<close> and
  \<open>OnFocusOutThunk\<close> for \<open>focus-out-event\<close>. No handler is registered for a
  resize event (\<open>configure-event\<close>). The two handlers call \<open>CloseWebContents\<close>
  and \<open>NotifyWindowBlur\<close> of the native-window abstraction.
\<close>

theorem registered_handlers:
  "signal_connects (calls (NativeWindowGtk_ctor env parent options)) =
     [(Some (window_new env), ''delete-event'', OnWindowDeleteEventThunk),
      (Some (window_new env), ''focus-out-event'', OnFocusOutThunk)]
   \<and> ''configure-event''
       \<notin> set (map (fst \<circ> snd)
                (signal_connects (calls (NativeWindowGtk_ctor env parent options))))
   \<and> calls (snd (OnWindowDeleteEvent widget event s)) = calls s @ [CloseWebContents]
   \<and> calls (snd (OnFocusOut widget event s)) = calls s @ [NotifyWindowBlur]"
  by (simp add: calls_ctor signal_connects_def List.map_filter_def OnWindowDeleteEvent_def
      OnFocusOut_def Close_def CloseWebContents_base_def NotifyWindowBlur_base_def
      call_def Let_def)

text \<open>
  C2, as stated, fails: in the window built from \<open>example_env\<close>, \<open>example_parent\<close>
  and \<open>example_options\<close> the registered signals are \<open>delete-event\<close> and
  \<open>focus-out-event\<close> and no others; neither \<open>configure-event\<close> nor
  \<open>size-allocate\<close> is among them.
\<close>

theorem no_resize_handler_counterexample:
  "map (fst \<circ> snd) (signal_connects (calls example_window)) =
     [''delete-event'', ''focus-out-event'']
   \<and> ''configure-event'' \<notin> set (map (fst \<circ> snd) (signal_connects (calls example_window)))
   \<and> ''size-allocate'' \<notin> set (map (fst \<circ> snd) (signal_connects (calls example_window)))"
  by (simp add: example_window_def signal_connects_ctor)

text \<open>
  C3. The handler of the delete event calls \<open>Close()\<close> and returns \<open>TRUE\<close>.
  \<open>Close()\<close> calls \<open>CloseWebContents\<close> and nothing else: it leaves the window
  pointer as it is and does not call \<open>gtk_widget_destroy\<close>.
\<close>

theorem delete_event_closes_web_contents:
  "OnWindowDeleteEvent widget event s = (TRUE, Close s)
   \<and> TRUE = True
   \<and> Close s = s\<lparr>calls := calls s @ [CloseWebContents]\<rparr>
   \<and> window_m (Close s) = window_m s
   \<and> Gtk_widget_destroy w \<notin> set (drop (length (calls s)) (calls (Close s)))"
  by (simp add: OnWindowDeleteEvent_def Close_def CloseWebContents_base_def call_def
      TRUE_def Let_def)

text \<open>
  C4. The handler of the focus-out event calls \<open>NotifyWindowBlur\<close>, changes nothing
  else and returns \<open>FALSE\<close>; the constructor registers it for \<open>focus-out-event\<close>
  on the new window.
\<close>

theorem focus_out_notifies_blur:
  "OnFocusOut window event s = (FALSE, s\<lparr>calls := calls s @ [NotifyWindowBlur]\<rparr>)
   \<and> FALSE = False
   \<and> (Some (window_new env), ''focus-out-event'', OnFocusOutThunk)
       \<in> set (signal_connects (calls (NativeWindowGtk_ctor env parent options)))"
  by (simp add: OnFocusOut_def NotifyWindowBlur_base_def call_def FALSE_def Let_def
      calls_ctor signal_connects_def List.map_filter_def)

subsection \<open>Cached flags\<close>

text \<open>
  C5. \<open>SetFullscreen(b)\<close> records \<open>b\<close> and calls \<open>gtk_window_fullscreen\<close> when
  \<open>b\<close> is true and \<open>gtk_window_unfullscreen\<close> when it is false; \<open>IsFullscreen()\<close>
  then returns \<open>b\<close>. \<open>SetAlwaysOnTop(b)\<close> records \<open>b\<close> and calls
  \<open>gtk_window_set_keep_above\<close> with \<open>b\<close>; \<open>IsAlwaysOnTop()\<close> then returns
  \<open>b\<close>. The two getters return the recorded flag whatever the toolkit would answer,
  and make no call.
\<close>

theorem fullscreen_and_always_on_top_cached:
  "SetFullscreen b s =
     s\<lparr>fullscreen_m := b,
       calls := calls s @ [if b then Gtk_window_fullscreen (window_m s)
                           else Gtk_window_unfullscreen (window_m s)]\<rparr>
   \<and> IsFullscreen (SetFullscreen b s) = b
   \<and> SetAlwaysOnTop b s =
     s\<lparr>is_always_on_top_m := b,
       calls := calls s @ [Gtk_window_set_keep_above (window_m s) b]\<rparr>
   \<and> IsAlwaysOnTop (SetAlwaysOnTop b s) = b
   \<and> step IsFullscreenOp env s = (Bool (fullscreen_m s), s)
   \<and> step IsAlwaysOnTopOp env s = (Bool (is_always_on_top_m s), s)"
  by (simp add: SetFullscreen_def IsFullscreen_def SetAlwaysOnTop_def IsAlwaysOnTop_def
      call_def Let_def TRUE_def FALSE_def)

subsection \<open>Size bounds\<close>

text \<open>
  C6. \<open>SetMinimumSize(s)\<close> stores \<open>s\<close> in \<open>minimum_size_\<close> and passes a geometry
  with \<open>min_width, min_height\<close> taken from \<open>s\<close> and the hints
  \<open>GDK_HINT_POS | GDK_HINT_MIN_SIZE\<close> to the toolkit; \<open>GetMinimumSize()\<close> then
  returns \<open>s\<close>. \<open>SetMaximumSize\<close> and \<open>GetMaximumSize\<close> do the same with
  \<open>maximum_size_\<close>. No operation other than \<open>SetMinimumSize\<close> changes
  \<open>minimum_size_\<close> and none other than \<open>SetMaximumSize\<close> changes
  \<open>maximum_size_\<close>; the constructor and the destructor leave both as the parent
  class set them.
\<close>

theorem size_bounds_stored_and_framed:
  "GetMinimumSize (SetMinimumSize sz s) = sz
   \<and> GetMaximumSize (SetMaximumSize sz s) = sz
   \<and> SetMinimumSize sz s =
       s\<lparr>minimum_size_m := sz,
         calls := calls s @
           [Gtk_window_set_geometry_hints (window_m s) (window_m s)
              (zero_geometry\<lparr>min_width := Size_width sz, min_height := Size_height sz\<rparr>)
              {GDK_HINT_POS, GDK_HINT_MIN_SIZE}]\<rparr>
   \<and> SetMaximumSize sz s =
       s\<lparr>maximum_size_m := sz,
         calls := calls s @
           [Gtk_window_set_geometry_hints (window_m s) (window_m s)
              (zero_geometry\<lparr>max_width := Size_width sz, max_height := Size_height sz\<rparr>)
              {GDK_HINT_POS, GDK_HINT_MAX_SIZE}]\<rparr>
   \<and> ((\<forall>sz'. op \<noteq> SetMinimumSizeOp sz') \<longrightarrow>
         minimum_size_m (snd (step op env s)) = minimum_size_m s)
   \<and> ((\<forall>sz'. op \<noteq> SetMaximumSizeOp sz') \<longrightarrow>
         maximum_size_m (snd (step op env s)) = maximum_size_m s)
   \<and> minimum_size_m (NativeWindowGtk_ctor env parent options) = minimum_size_m parent
   \<and> maximum_size_m (NativeWindowGtk_ctor env parent options) = maximum_size_m parent
   \<and> minimum_size_m (NativeWindowGtk_dtor s) = minimum_size_m s
   \<and> maximum_size_m (NativeWindowGtk_dtor s) = maximum_size_m s"
proof (intro conjI)
  show "(\<forall>sz'. op \<noteq> SetMinimumSizeOp sz') \<longrightarrow>
          minimum_size_m (snd (step op env s)) = minimum_size_m s"
    using step_minimum_size by blast
  show "(\<forall>sz'. op \<noteq> SetMaximumSizeOp sz') \<longrightarrow>
          maximum_size_m (snd (step op env s)) = maximum_size_m s"
    using step_maximum_size by blast
qed (simp_all add: GetMinimumSize_def SetMinimumSize_def GetMaximumSize_def
      SetMaximumSize_def NativeWindowGtk_ctor_def SetWebKitColorStyle_def
      NativeWindowGtk_dtor_def call_def Let_def insert_commute)

text \<open>
  At a concrete input: after \<open>SetMinimumSize(300x200)\<close> on the example window, a
  \<open>Move\<close> (which is neither of the two setters) leaves the minimum at 300x200 and
  the maximum at the parent's 0x0.
\<close>

theorem size_bounds_stored_and_framed_witness:
  "(\<forall>sz'. MoveOp \<lparr>Rect_x = 1, Rect_y = 2, Rect_width = 3, Rect_height = 4\<rparr>
            \<noteq> SetMinimumSizeOp sz')
   \<and> (\<forall>sz'. MoveOp \<lparr>Rect_x = 1, Rect_y = 2, Rect_width = 3, Rect_height = 4\<rparr>
            \<noteq> SetMaximumSizeOp sz')
   \<and> minimum_size_m
       (snd (step (MoveOp \<lparr>Rect_x = 1, Rect_y = 2, Rect_width = 3, Rect_height = 4\<rparr>)
               example_env
               (SetMinimumSize \<lparr>Size_width = 300, Size_height = 200\<rparr> example_window)))
     = \<lparr>Size_width = 300, Size_height = 200\<rparr>
   \<and> maximum_size_m
       (snd (step (MoveOp \<lparr>Rect_x = 1, Rect_y = 2, Rect_width = 3, Rect_height = 4\<rparr>)
               example_env
               (SetMinimumSize \<lparr>Size_width = 300, Size_height = 200\<rparr> example_window)))
     = \<lparr>Size_width = 0, Size_height = 0\<rparr>"
proof -
  let ?op = "MoveOp \<lparr>Rect_x = 1, Rect_y = 2, Rect_width = 3, Rect_height = 4\<rparr>"
  let ?s = "SetMinimumSize \<lparr>Size_width = 300, Size_height = 200\<rparr> example_window"
  have not_min: "\<forall>sz'. ?op \<noteq> SetMinimumSizeOp sz'"
    by simp
  have not_max: "\<forall>sz'. ?op \<noteq> SetMaximumSizeOp sz'"
    by simp
  note framed = size_bounds_stored_and_framed
    [where sz = "\<lparr>Size_width = 300, Size_height = 200\<rparr>" and s = ?s and op = ?op
       and env = example_env and parent = example_parent and options = example_options]
  have min_kept: "minimum_size_m (snd (step ?op example_env ?s)) = minimum_size_m ?s"
    using framed not_min by blast
  have max_kept: "maximum_size_m (snd (step ?op example_env ?s)) = maximum_size_m ?s"
    using framed not_max by blast
  have min_before: "minimum_size_m ?s = \<lparr>Size_width = 300, Size_height = 200\<rparr>"
    by (simp add: SetMinimumSize_def call_def Let_def)
  have "maximum_size_m ?s = maximum_size_m example_parent"
    by (simp add: SetMinimumSize_def call_def Let_def example_window_def
        NativeWindowGtk_ctor_def SetWebKitColorStyle_def)
  then have max_before: "maximum_size_m ?s = \<lparr>Size_width = 0, Size_height = 0\<rparr>"
    by (simp add: example_parent_def)
  show ?thesis
    by (intro conjI) (fact not_min, fact not_max, fact trans [OF min_kept min_before],
        fact trans [OF max_kept max_before])
qed

subsection \<open>Construction\<close>

text \<open>
  C7. The constructor creates a top-level toolkit window, keeps it in \<open>window_\<close> and
  adds the native view of the web contents to it. It calls
  \<open>gtk_window_set_decorated(window_, false)\<close> exactly when the inherited
  \<open>has_frame_\<close> is false, and \<open>gtk_window_set_icon\<close> with the pixbuf of the
  inherited icon exactly when that icon is not empty; it changes neither member.
\<close>

theorem constructor_embeds_view_and_applies_parent_state:
  "window_m (NativeWindowGtk_ctor env parent options) = Some (window_new env)
   \<and> take 2 (calls (NativeWindowGtk_ctor env parent options)) =
       [Gtk_window_new GTK_WINDOW_TOPLEVEL,
        Gtk_container_add (Some (window_new env)) (web_contents_native_view parent)]
   \<and> (Gtk_window_set_decorated w d \<in> set (calls (NativeWindowGtk_ctor env parent options))
       \<longleftrightarrow> \<not> has_frame_m parent \<and> w = Some (window_new env) \<and> d = False)
   \<and> (Gtk_window_set_icon w p \<in> set (calls (NativeWindowGtk_ctor env parent options))
       \<longleftrightarrow> \<not> IsEmpty (icon_m parent) \<and> w = Some (window_new env)
           \<and> p = ToGdkPixbuf (icon_m parent))
   \<and> has_frame_m (NativeWindowGtk_ctor env parent options) = has_frame_m parent
   \<and> icon_m (NativeWindowGtk_ctor env parent options) = icon_m parent"
proof (intro conjI)
  show "take 2 (calls (NativeWindowGtk_ctor env parent options)) =
       [Gtk_window_new GTK_WINDOW_TOPLEVEL,
        Gtk_container_add (Some (window_new env)) (web_contents_native_view parent)]"
    by (simp add: calls_ctor numeral_2_eq_2)
  show "Gtk_window_set_decorated w d \<in> set (calls (NativeWindowGtk_ctor env parent options))
       \<longleftrightarrow> \<not> has_frame_m parent \<and> w = Some (window_new env) \<and> d = False"
    by (auto simp add: calls_ctor)
  show "Gtk_window_set_icon w p \<in> set (calls (NativeWindowGtk_ctor env parent options))
       \<longleftrightarrow> \<not> IsEmpty (icon_m parent) \<and> w = Some (window_new env)
           \<and> p = ToGdkPixbuf (icon_m parent)"
    by (auto simp add: calls_ctor)
qed (simp_all add: NativeWindowGtk_ctor_def SetWebKitColorStyle_def call_def Let_def)

text \<open>
  C9. The constructor sets the default size of the window once, to the integers that
  the options hold under \<open>kWidth\<close> and \<open>kHeight\<close>; where the options hold none, the
  width is 800 and the height is 600.
\<close>

theorem default_size_from_options:
  "calls (NativeWindowGtk_ctor env parent options) ! 2 =
     Gtk_window_set_default_size (Some (window_new env))
       (case options kWidth of Some w \<Rightarrow> w | None \<Rightarrow> 800)
       (case options kHeight of Some h \<Rightarrow> h | None \<Rightarrow> 600)
   \<and> (Gtk_window_set_default_size win a b
         \<in> set (calls (NativeWindowGtk_ctor env parent options))
       \<longleftrightarrow> win = Some (window_new env)
           \<and> a = (case options kWidth of Some w \<Rightarrow> w | None \<Rightarrow> 800)
           \<and> b = (case options kHeight of Some h \<Rightarrow> h | None \<Rightarrow> 600))"
proof (intro conjI)
  show "calls (NativeWindowGtk_ctor env parent options) ! 2 =
     Gtk_window_set_default_size (Some (window_new env))
       (case options kWidth of Some w \<Rightarrow> w | None \<Rightarrow> 800)
       (case options kHeight of Some h \<Rightarrow> h | None \<Rightarrow> 600)"
    by (simp add: calls_ctor numeral_2_eq_2)
  show "Gtk_window_set_default_size win a b
         \<in> set (calls (NativeWindowGtk_ctor env parent options))
       \<longleftrightarrow> win = Some (window_new env)
           \<and> a = (case options kWidth of Some w \<Rightarrow> w | None \<Rightarrow> 800)
           \<and> b = (case options kHeight of Some h \<Rightarrow> h | None \<Rightarrow> 600)"
    by (auto simp add: calls_ctor)
qed

subsection \<open>Kiosk mode and modal dialogs\<close>

text \<open>
  C8. \<open>SetKiosk(b)\<close> is \<open>SetFullscreen(b)\<close>: the same new state and the same
  toolkit calls; \<open>IsKiosk()\<close> returns what \<open>IsFullscreen()\<close> returns.
\<close>

theorem kiosk_is_fullscreen:
  "SetKiosk b s = SetFullscreen b s
   \<and> IsKiosk s = IsFullscreen s
   \<and> step (SetKioskOp b) env s = step (SetFullscreenOp b) env s
   \<and> step IsKioskOp env s = step IsFullscreenOp env s"
  by (simp add: SetKiosk_def IsKiosk_def)

text \<open>
  C10. \<open>HasModalDialog()\<close> returns false in every state, in particular in the state
  reached from a new window by any sequence of operations, and changes nothing.
\<close>

theorem has_modal_dialog_false:
  "HasModalDialog s = False
   \<and> HasModalDialog (run evs (NativeWindowGtk_ctor env parent options)) = False
   \<and> step HasModalDialogOp env' (run evs (NativeWindowGtk_ctor env parent options)) =
       (Bool False, run evs (NativeWindowGtk_ctor env parent options))"
  by (simp add: HasModalDialog_def)

end
